theory Spec2Isabelle
  imports Main "HOL-Library.Sublist"
begin

section \<open>Data model\<close>

text \<open>
  One row of the frameworks table. The four columns are the ones \<open>app.py\<close> reads:
  \<open>frameworks_df['name']\<close>, \<open>['category']\<close>, \<open>['core_function']\<close> and
  \<open>['typical_uses']\<close>. A data frame is the ordered list of its rows. Text is ASCII:
  a \<open>char\<close> stands for the code point of the same number.
\<close>

record framework =
  name :: string
  category :: string
  core_function :: string
  typical_uses :: string

type_synonym dataframe = "framework list"

text \<open>
  Python exceptions. \<open>Exc msg\<close> is an instance of (a subclass of) \<open>Exception\<close> with
  \<open>str(e) = msg\<close>; \<open>BaseExc msg\<close> is a \<open>BaseException\<close> that is not an
  \<open>Exception\<close> (\<open>SystemExit\<close>, \<open>KeyboardInterrupt\<close>, the script-control exceptions
  of the UI library), which \<open>except Exception\<close> does not catch.
\<close>

datatype py_exc = Exc string | BaseExc string

text \<open>
  The result of a library call that is modelled on a fragment of its inputs only:
  \<open>Unmodelled\<close> says that the input lies outside the fragment, and nothing is claimed
  about it.
\<close>

datatype 'a outcome = Unmodelled | Raises py_exc | Returns 'a

fun bind_outcome :: "'a outcome \<Rightarrow> ('a \<Rightarrow> 'b outcome) \<Rightarrow> 'b outcome" where
  "bind_outcome Unmodelled f = Unmodelled"
| "bind_outcome (Raises e) f = Raises e"
| "bind_outcome (Returns x) f = f x"

section \<open>Boolean indexing\<close>

text \<open>
  \<open>df[mask]\<close> keeps the rows whose mask entry is true, in the order of the frame;
  \<open>a | b\<close> on two boolean series is the element-wise disjunction.
\<close>

definition df_filter :: "'a list \<Rightarrow> bool list \<Rightarrow> 'a list" where
  "df_filter df bools = map fst (filter snd (zip df bools))"

definition mask_or :: "bool list \<Rightarrow> bool list \<Rightarrow> bool list" where
  "mask_or a b = map (\<lambda>(x, y). x \<or> y) (zip a b)"

text \<open>\<open>series.isin(values)\<close>: one boolean per element, true when it is one of the values.\<close>

definition isin :: "'a list \<Rightarrow> 'a list \<Rightarrow> bool list" where
  "isin series vals = map (\<lambda>x. x \<in> set vals) series"

text \<open>\<open>series == value\<close>: element-wise equality.\<close>

definition series_eq :: "'a list \<Rightarrow> 'a \<Rightarrow> bool list" where
  "series_eq series v = map (\<lambda>x. x = v) series"

section \<open>The pattern search behind \<open>str.contains\<close>\<close>

text \<open>
  \<open>Series.str.contains(pat, case=False)\<close> is called with its default \<open>regex=True\<close>: it
  compiles \<open>pat\<close> with \<open>re.compile\<close> under \<open>re.IGNORECASE\<close> and keeps, for every element,
  whether \<open>regex.search\<close> finds a match. The model covers the patterns made of ordinary
  characters, the dot and bracketed character sets. A pattern in which the parser meets
  one of \<open>{ ( ) * + ? ^ $ |\<close> before it meets an error, or which holds a backslash, a
  line feed or a character beyond ASCII, is \<open>Unmodelled\<close>.
\<close>

datatype set_item = SLit char | SRange char char

datatype item = Lit char | AnyChar | InSet bool "set_item list"

definition backslash :: char where
  "backslash = CHR 0x5C"

definition newline :: char where
  "newline = CHR 0x0A"

definition digit_char :: "nat \<Rightarrow> char" where
  "digit_char d = char_of (48 + d)"

function str_nat :: "nat \<Rightarrow> string" where
  "str_nat n = (if n < 10 then [digit_char n] else str_nat (n div 10) @ [digit_char (n mod 10)])"
  by pat_completeness auto
termination
  by (relation "measure id") auto

declare str_nat.simps [simp del]

text \<open>\<open>str(re.error(msg, pattern, pos))\<close> for a pattern without line feed.\<close>

definition re_error :: "string \<Rightarrow> nat \<Rightarrow> py_exc" where
  "re_error msg pos = Exc (msg @ '' at position '' @ str_nat pos)"

text \<open>
  The loop of \<open>_parse\<close> that reads a character set, entered after \<open>[\<close> and an optional
  \<open>^\<close>. \<open>here\<close> is the position of the \<open>[\<close>, \<open>pos\<close> the position of the next character,
  \<open>acc\<close> the members read so far. It returns the members, the position after the closing
  \<open>]\<close> and the rest of the pattern.
\<close>

fun parse_set :: "nat \<Rightarrow> nat \<Rightarrow> set_item list \<Rightarrow> string \<Rightarrow> (set_item list \<times> nat \<times> string) outcome" where
  "parse_set here pos acc [] = Raises (re_error ''unterminated character set'' here)"
| "parse_set here pos acc (tok # cs) =
     (if tok = CHR '']'' \<and> acc \<noteq> [] then Returns (acc, pos + 1, cs)
      else (case cs of
          [] \<Rightarrow> parse_set here (pos + 1) (acc @ [SLit tok]) cs
        | c # cs' \<Rightarrow>
            if c = CHR ''-'' then
              (case cs' of
                 [] \<Rightarrow> Raises (re_error ''unterminated character set'' here)
               | that # cs'' \<Rightarrow>
                   if that = CHR '']'' then Returns (acc @ [SLit tok, SLit CHR ''-''], pos + 3, cs'')
                   else if (of_char that :: nat) < of_char tok then
                     Raises (re_error (''bad character range '' @ [tok] @ ''-'' @ [that]) pos)
                   else parse_set here (pos + 3) (acc @ [SRange tok that]) cs'')
            else parse_set here (pos + 1) (acc @ [SLit tok]) cs))"

lemma parse_set_shorter:
  "parse_set here pos acc s = Returns (ms, pos', rest) \<Longrightarrow> length rest < length s"
proof (induction here pos acc s rule: parse_set.induct)
  case (1 here pos acc)
  then show ?case by simp
next
  case (2 here pos acc tok cs)
  show ?case
  proof (cases "tok = CHR '']'' \<and> acc \<noteq> []")
    case True
    with "2.prems" show ?thesis by simp
  next
    case False
    note outer = False
    show ?thesis
    proof (cases cs)
      case Nil
      with outer "2.prems" have "parse_set here (pos + 1) (acc @ [SLit tok]) cs = Returns (ms, pos', rest)"
        by (simp split: if_splits)
      with "2.IH"(1)[OF outer Nil] show ?thesis by simp
    next
      case (Cons c cs')
      note cs = Cons
      show ?thesis
      proof (cases "c = CHR ''-''")
        case False
        with outer cs "2.prems" have "parse_set here (pos + 1) (acc @ [SLit tok]) cs = Returns (ms, pos', rest)"
          by (simp split: if_splits)
        with "2.IH"(3)[OF outer cs False] show ?thesis by simp
      next
        case True
        note dash = True
        show ?thesis
        proof (cases cs')
          case Nil
          with outer cs dash "2.prems" show ?thesis by (simp split: if_splits)
        next
          case (Cons that cs'')
          note cs' = Cons
          show ?thesis
          proof (cases "that = CHR '']''")
            case True
            with outer cs dash cs' "2.prems" show ?thesis by (auto split: if_splits)
          next
            case False
            note nb = False
            show ?thesis
            proof (cases "(of_char that :: nat) < of_char tok")
              case True
              with outer cs dash cs' nb "2.prems" show ?thesis by (simp split: if_splits)
            next
              case False
              with outer cs dash cs' nb "2.prems"
              have "parse_set here (pos + 3) (acc @ [SRange tok that]) cs'' = Returns (ms, pos', rest)"
                by (simp split: if_splits)
              with "2.IH"(2)[OF outer cs dash cs' nb False] cs cs' show ?thesis by simp
            qed
          qed
        qed
      qed
    qed
  qed
qed

text \<open>The special characters of the pattern syntax that the model does not cover.\<close>

definition operators :: string where
  "operators = ''{()*+?^$|''"

text \<open>
  The set branch of \<open>_parse\<close>: \<open>negate = sourcematch("^")\<close>, then the loop above.
  \<open>here\<close> is the position of the \<open>[\<close> and \<open>cs\<close> the pattern after it.
\<close>

definition parse_class :: "nat \<Rightarrow> string \<Rightarrow> (item \<times> nat \<times> string) outcome" where
  "parse_class here cs =
     (let negate = (case cs of [] \<Rightarrow> False | c # _ \<Rightarrow> c = CHR ''^'') in
      bind_outcome
        (if negate then parse_set here (here + 2) [] (tl cs) else parse_set here (here + 1) [] cs)
        (\<lambda>(ms, pos', rest). Returns (InSet negate ms, pos', rest)))"

lemma parse_class_shorter:
  assumes "parse_class here cs = Returns (it, pos', rest)"
  shows "length rest < Suc (length cs)"
proof -
  let ?negate = "case cs of [] \<Rightarrow> False | c # _ \<Rightarrow> c = CHR ''^''"
  let ?r = "if ?negate then parse_set here (here + 2) [] (tl cs) else parse_set here (here + 1) [] cs"
  from assms obtain ms where r: "?r = Returns (ms, pos', rest)"
    by (cases ?r) (auto simp: parse_class_def Let_def)
  show ?thesis
  proof (cases ?negate)
    case True
    with r have "parse_set here (here + 2) [] (tl cs) = Returns (ms, pos', rest)" by simp
    then have "length rest < length (tl cs)" by (rule parse_set_shorter)
    then show ?thesis by simp
  next
    case False
    with r have "parse_set here (here + 1) [] cs = Returns (ms, pos', rest)" by simp
    then have "length rest < length cs" by (rule parse_set_shorter)
    then show ?thesis by simp
  qed
qed

text \<open>The main loop of \<open>_parse\<close>, on the fragment.\<close>

function parse :: "nat \<Rightarrow> string \<Rightarrow> item list outcome" where
  "parse pos [] = Returns []"
| "parse pos (tok # cs) =
     (if tok = CHR ''['' then
        (case parse_class pos cs of
           Unmodelled \<Rightarrow> Unmodelled
         | Raises e \<Rightarrow> Raises e
         | Returns (it, pos', rest) \<Rightarrow>
             bind_outcome (parse pos' rest) (\<lambda>items. Returns (it # items)))
      else if tok = CHR ''.'' then
        bind_outcome (parse (pos + 1) cs) (\<lambda>items. Returns (AnyChar # items))
      else if tok \<in> set operators then Unmodelled
      else bind_outcome (parse (pos + 1) cs) (\<lambda>items. Returns (Lit tok # items)))"
  by pat_completeness auto
termination
proof (relation "measure (\<lambda>(pos, s). length s)")
  show "wf (measure (\<lambda>(pos, s). length s))" by simp
next
  fix pos :: nat and tok :: char and cs :: string and x3 x y xa ya
  assume "tok = CHR ''[''" "parse_class pos cs = Returns x3" "(x, y) = x3" "(xa, ya) = y"
  then have "parse_class pos cs = Returns (x, xa, ya)" by simp
  then have "length ya < Suc (length cs)" by (rule parse_class_shorter)
  then show "((xa, ya), pos, tok # cs) \<in> measure (\<lambda>(pos, s). length s)" by simp
next
  fix pos :: nat and tok :: char and cs :: string
  show "((pos + 1, cs), pos, tok # cs) \<in> measure (\<lambda>(pos, s). length s)" by simp
next
  fix pos :: nat and tok :: char and cs :: string
  show "((pos + 1, cs), pos, tok # cs) \<in> measure (\<lambda>(pos, s). length s)" by simp
qed

definition re_compile :: "string \<Rightarrow> item list outcome" where
  "re_compile pat =
     (if list_ex (\<lambda>c. c = backslash \<or> c = newline \<or> (128::nat) \<le> of_char c) pat then Unmodelled
      else parse 0 pat)"

text \<open>Matching under \<open>re.IGNORECASE\<close>: both sides are lowered.\<close>

definition lower :: "char \<Rightarrow> char" where
  "lower c = (if (65::nat) \<le> of_char c \<and> (of_char c :: nat) \<le> 90 then char_of (of_char c + (32::nat)) else c)"

fun in_set_item :: "char \<Rightarrow> set_item \<Rightarrow> bool" where
  "in_set_item ch (SLit x) = (lower x = ch)"
| "in_set_item ch (SRange lo hi) =
     list_ex (\<lambda>n. lower (char_of n) = ch) [of_char lo ..< Suc (of_char hi)]"

fun item_match :: "item \<Rightarrow> char \<Rightarrow> bool" where
  "item_match (Lit x) c = (lower x = lower c)"
| "item_match AnyChar c = (c \<noteq> newline)"
| "item_match (InSet negate ms) c = (list_ex (in_set_item (lower c)) ms \<noteq> negate)"

fun match_here :: "item list \<Rightarrow> string \<Rightarrow> bool" where
  "match_here [] s = True"
| "match_here (i # items) [] = False"
| "match_here (i # items) (c # s) = (item_match i c \<and> match_here items s)"

text \<open>\<open>regex.search(s) is not None\<close>: a match starting at some position of \<open>s\<close>.\<close>

fun re_search :: "item list \<Rightarrow> string \<Rightarrow> bool" where
  "re_search items [] = match_here items []"
| "re_search items (c # s) = (match_here items (c # s) \<or> re_search items s)"

definition str_contains :: "string list \<Rightarrow> string \<Rightarrow> bool list outcome" where
  "str_contains series pat =
     bind_outcome (re_compile pat) (\<lambda>regex. Returns (map (re_search regex) series))"

section \<open>Search, featured selection and counts, as \<open>show_home_page\<close> computes them\<close>

text \<open>Lines 99 to 103: the three \<open>str.contains\<close> masks, or-ed, index the frame.\<close>

definition search :: "dataframe \<Rightarrow> string \<Rightarrow> dataframe outcome" where
  "search frameworks_df search_term =
     bind_outcome (str_contains (map name frameworks_df) search_term) (\<lambda>m1.
     bind_outcome (str_contains (map core_function frameworks_df) search_term) (\<lambda>m2.
     bind_outcome (str_contains (map typical_uses frameworks_df) search_term) (\<lambda>m3.
       Returns (df_filter frameworks_df (mask_or (mask_or m1 m2) m3)))))"

text \<open>Line 124: \<open>frameworks_df[frameworks_df['name'].isin(featured_frameworks)]\<close>.\<close>

definition select_featured :: "dataframe \<Rightarrow> string list \<Rightarrow> dataframe" where
  "select_featured frameworks_df featured = df_filter frameworks_df (isin (map name frameworks_df) featured)"



text \<open>
  Line 84: \<open>frameworks_df['category'].value_counts()\<close>. The library counts the values
  in a hash table that keeps the keys in the order of their first appearance, then sorts
  the counts with \<open>sort_values(ascending=False)\<close> under the default sort kind, which is
  not stable: the call fixes the order of the counts and promises nothing about entries
  of equal count. The model sorts in ascending order and reverses the result, so that
  entries of equal count come out in the reverse of their incoming order.
\<close>

fun bump :: "'a \<Rightarrow> ('a \<times> nat) list \<Rightarrow> ('a \<times> nat) list" where
  "bump k [] = [(k, 1)]"
| "bump k ((k', n) # table) = (if k = k' then (k', Suc n) # table else (k', n) # bump k table)"

definition count_in_order :: "'a list \<Rightarrow> ('a \<times> nat) list" where
  "count_in_order xs = foldl (\<lambda>table k. bump k table) [] xs"

definition sort_values_desc :: "('a \<times> nat) list \<Rightarrow> ('a \<times> nat) list" where
  "sort_values_desc table = rev (sort_key snd table)"

definition value_counts :: "'a list \<Rightarrow> ('a \<times> nat) list" where
  "value_counts xs = sort_values_desc (count_in_order xs)"

section \<open>The pages\<close>

text \<open>
  What a run writes to the screen, one constructor per call of the UI library. The
  pictographs that decorate the headings in the source are left out of the strings.
\<close>

datatype metric_value = Count nat | Text string

datatype ui =
    StTitle string
  | StMarkdown string
  | StSidebarTitle string
  | StSidebarRadio string "string list"
  | StMetric string metric_value
  | StSubheader string
  | StPlotlyChart string "string list" "nat list"
  | StTextInput string
  | StDataframe dataframe
  | StWarning string
  | StExpander string "string list"
  | StWrite string
  | StError string

text \<open>
  A rendering: what was written, and how the call ended. \<open>Raises e\<close> after some output
  means that the output was written before the exception left the call.
\<close>

type_synonym rendering = "ui list \<times> unit outcome"

text \<open>One step after another: the second runs only when the first returned.\<close>

fun then_render :: "rendering \<Rightarrow> rendering \<Rightarrow> rendering" where
  "then_render (out, Returns u) following = (out @ fst following, snd following)"
| "then_render (out, Raises e) following = (out, Raises e)"
| "then_render (out, Unmodelled) following = (out, Unmodelled)"

datatype page = Home | FrameworkExplorer | ComparativeAnalysis | IndustryRecommendations
  | FrameworkRelationships

fun label :: "page \<Rightarrow> string" where
  "label Home = ''Home''"
| "label FrameworkExplorer = ''Framework Explorer''"
| "label ComparativeAnalysis = ''Comparative Analysis''"
| "label IndustryRecommendations = ''Industry Recommendations''"
| "label FrameworkRelationships = ''Framework Relationships''"

definition apostrophe :: char where
  "apostrophe = CHR 0x27"

definition featured_frameworks :: "string list" where
  "featured_frameworks =
     [''SWOT Analysis'', ''Business Model Canvas'', ''Porter'' @ [apostrophe] @ ''s Five Forces'',
      ''Design Thinking'', ''Lean Management'']"

text \<open>
  Line 85: \<open>px.bar(x=..., y=...)\<close> on two sequences, without a data frame. An empty
  sequence is read as a list of columns, and the call raises \<open>ValueError\<close> when both
  arguments are read so: that is the case when the frame has no rows.
\<close>

definition px_bar_both_wide :: string where
  "px_bar_both_wide =
     ''Cannot accept list of column references or list of columns for both `x` and `y`.''"

definition px_bar :: "string list \<Rightarrow> nat list \<Rightarrow> string \<Rightarrow> ui outcome" where
  "px_bar x y title =
     (if x = [] \<and> y = [] then Raises (Exc px_bar_both_wide) else Returns (StPlotlyChart title x y))"

text \<open>
  Lines 64 to 92: the four metrics, then the bar chart of the category counts. The
  metrics are on the screen when the chart is built.
\<close>

definition home_overview :: "dataframe \<Rightarrow> string list \<Rightarrow> rendering" where
  "home_overview frameworks_df categories =
     (let metrics =
        [StMetric ''Total Frameworks'' (Count (length frameworks_df)),
         StMetric ''Categories'' (Count (length categories)),
         StMetric ''Strategic Frameworks''
           (Count (length (df_filter frameworks_df
              (series_eq (map category frameworks_df) ''Strategic Planning Frameworks'')))),
         StMetric ''Industries Covered'' (Text ''10+''),
         StMarkdown ''---'',
         StSubheader ''Framework Categories Overview''];
        category_counts = value_counts (map category frameworks_df)
      in case px_bar (map fst category_counts) (map snd category_counts)
                ''Number of Frameworks by Category'' of
           Returns fig \<Rightarrow> (metrics @ [fig], Returns ())
         | Raises e \<Rightarrow> (metrics, Raises e)
         | Unmodelled \<Rightarrow> (metrics, Unmodelled))"

text \<open>
  Lines 98 to 111: \<open>if search_term:\<close> is false for the empty string, which is what the
  text input returns when nothing was typed.
\<close>

definition home_search :: "dataframe \<Rightarrow> string \<Rightarrow> rendering" where
  "home_search frameworks_df search_term =
     (if search_term \<noteq> [] then
        (case search frameworks_df search_term of
           Unmodelled \<Rightarrow> ([], Unmodelled)
         | Raises e \<Rightarrow> ([], Raises e)
         | Returns filtered_frameworks \<Rightarrow>
             if filtered_frameworks \<noteq> [] then ([StDataframe filtered_frameworks], Returns ())
             else ([StWarning ''No frameworks found matching your search.''], Returns ()))
      else ([], Returns ()))"

text \<open>Lines 114 to 130: one expander for each featured row.\<close>

definition home_featured :: "dataframe \<Rightarrow> ui list" where
  "home_featured frameworks_df =
     StSubheader ''Featured Frameworks'' #
     map (\<lambda>fw. StExpander (name fw)
            [''**Category:** '' @ category fw,
             ''**Core Function:** '' @ core_function fw,
             ''**Typical Uses:** '' @ typical_uses fw])
         (select_featured frameworks_df featured_frameworks)"

text \<open>Lines 133 to 146; the body of the guide is static text.\<close>

definition home_guide :: "ui list" where
  "home_guide = [StSubheader ''Getting Started'', StMarkdown ''**How to use this platform:** ...'']"

definition show_home_page :: "dataframe \<Rightarrow> string list \<Rightarrow> string \<Rightarrow> rendering" where
  "show_home_page frameworks_df categories search_term =
     then_render (home_overview frameworks_df categories)
       (then_render
          ([StSubheader ''Quick Framework Search'', StTextInput ''Search for a framework:''],
           Returns ())
          (then_render (home_search frameworks_df search_term)
             (home_featured frameworks_df @ home_guide, Returns ())))"

section \<open>The router\<close>

text \<open>
  What \<open>main\<close> reads from outside: the page chosen in the sidebar, the text of the search
  box, the two loaders of \<open>data.frameworks_data\<close> (either may raise) and, for each of the
  four other pages, what \<open>import pages.x\<close> followed by \<open>show_page()\<close> writes and whether
  it raises.
\<close>

record env =
  selected_page :: page
  search_input :: string
  get_all_frameworks :: "py_exc + dataframe"
  get_framework_categories :: "py_exc + string list"
  fe_show_page :: "ui list \<times> py_exc option"
  ca_show_page :: "ui list \<times> py_exc option"
  ir_show_page :: "ui list \<times> py_exc option"
  fr_show_page :: "ui list \<times> py_exc option"

fun other_page :: "string \<Rightarrow> ui list \<times> py_exc option \<Rightarrow> rendering" where
  "other_page loading (out, None) = (StWrite loading # out, Returns ())"
| "other_page loading (out, Some e) = (StWrite loading # out, Raises e)"

text \<open>Lines 39 to 56: the body of the \<open>try\<close>.\<close>

definition route :: "env \<Rightarrow> dataframe \<Rightarrow> string list \<Rightarrow> rendering" where
  "route e frameworks_df categories =
     (case selected_page e of
        Home \<Rightarrow> show_home_page frameworks_df categories (search_input e)
      | FrameworkExplorer \<Rightarrow> other_page ''Loading Framework Explorer...'' (fe_show_page e)
      | ComparativeAnalysis \<Rightarrow> other_page ''Loading Comparative Analysis...'' (ca_show_page e)
      | IndustryRecommendations \<Rightarrow> other_page ''Loading Industry Recommendations...'' (ir_show_page e)
      | FrameworkRelationships \<Rightarrow> other_page ''Loading Framework Relationships...'' (fr_show_page e))"

definition error_message :: "page \<Rightarrow> string \<Rightarrow> string" where
  "error_message p msg =
     ''Error loading page '' @ [apostrophe] @ label p @ [apostrophe] @ '': '' @ msg"

text \<open>Lines 57 to 59: \<open>except Exception as e\<close>.\<close>

fun except_Exception :: "page \<Rightarrow> rendering \<Rightarrow> rendering" where
  "except_Exception p (out, Raises (Exc msg)) =
     (out @ [StError (error_message p msg),
             StWrite ''Please try refreshing the page or contact support if the issue persists.''],
      Returns ())"
| "except_Exception p (out, r) = (out, r)"

definition main_header :: "ui list" where
  "main_header =
     [StTitle ''Business Framework Analysis Platform'',
      StMarkdown ''### Comprehensive analysis of 100+ business frameworks with interactive visualizations'',
      StSidebarTitle ''Navigation'',
      StSidebarRadio ''Select a page:''
        (map label [Home, FrameworkExplorer, ComparativeAnalysis, IndustryRecommendations,
                    FrameworkRelationships])]"

definition main :: "env \<Rightarrow> rendering" where
  "main e =
     (case get_all_frameworks e of
        Inl exc \<Rightarrow> (main_header, Raises exc)
      | Inr frameworks_df \<Rightarrow>
          (case get_framework_categories e of
             Inl exc \<Rightarrow> (main_header, Raises exc)
           | Inr categories \<Rightarrow>
               (case except_Exception (selected_page e) (route e frameworks_df categories) of
                  (out, r) \<Rightarrow> (main_header @ out, r))))"

section \<open>Containment as the specification words it\<close>

text \<open>
  The query, compared without regard to case, occurs as a contiguous piece of the text.
\<close>

definition ci_contains :: "string \<Rightarrow> string \<Rightarrow> bool" where
  "ci_contains q s = list_ex (\<lambda>t. prefix (map lower q) (map lower t)) (suffixes s)"

definition spec_match :: "string \<Rightarrow> framework \<Rightarrow> bool" where
  "spec_match q r = (ci_contains q (name r) \<or> ci_contains q (core_function r) \<or> ci_contains q (typical_uses r))"

text \<open>The two-row data set of the specification's concrete scenario.\<close>

definition spec_scenario :: dataframe where
  "spec_scenario =
     [\<lparr>name = ''SWOT Analysis'', category = ''Strategic Planning Frameworks'',
       core_function = ''Identify strengths/weaknesses'', typical_uses = ''Strategy sessions''\<rparr>,
      \<lparr>name = ''Design Thinking'', category = ''Innovation'',
       core_function = ''Human-centered ideation'', typical_uses = ''Product design''\<rparr>]"

section \<open>Notions used to state the properties\<close>



text \<open>
  A character that the pattern syntax reads as itself: not special, and within the
  fragment that the model covers.
\<close>

definition plain_char :: "char \<Rightarrow> bool" where
  "plain_char c \<longleftrightarrow>
     c \<noteq> CHR ''['' \<and> c \<noteq> CHR ''.'' \<and> c \<notin> set operators \<and>
     c \<noteq> backslash \<and> c \<noteq> newline \<and> (of_char c :: nat) < 128"

text \<open>
  Concrete data: three records in two categories of different size, and four records in
  four categories.
\<close>

definition three_frameworks :: dataframe where
  "three_frameworks =
     [\<lparr>name = ''SWOT Analysis'', category = ''Strategic Planning Frameworks'',
       core_function = ''Identify strengths/weaknesses'', typical_uses = ''Strategy sessions''\<rparr>,
      \<lparr>name = ''Design Thinking'', category = ''Innovation'',
       core_function = ''Human-centered ideation'', typical_uses = ''Product design''\<rparr>,
      \<lparr>name = ''Business Model Canvas'', category = ''Strategic Planning Frameworks'',
       core_function = ''Describe a business model'', typical_uses = ''Startup planning''\<rparr>]"


definition two_categories :: "string list" where
  "two_categories = [''Strategic Planning Frameworks'', ''Innovation'']"


text \<open>
  Concrete runs: each of the four other pages raises while it renders; the query \<open>[\<close>
  is typed into the search box of the Home page; the Home page is shown for a frame
  without rows; the first loader raises.
\<close>

definition failing_pages :: env where
  "failing_pages =
     \<lparr>selected_page = FrameworkExplorer, search_input = [],
      get_all_frameworks = Inr three_frameworks,
      get_framework_categories = Inr two_categories,
      fe_show_page = ([StWrite ''Explorer''], Some (Exc ''explorer failed'')),
      ca_show_page = ([], Some (Exc ''comparison failed'')),
      ir_show_page = ([StWrite ''Industries''], Some (Exc ''recommendations failed'')),
      fr_show_page = ([], Some (Exc ''relationships failed''))\<rparr>"



definition failing_loader :: env where
  "failing_loader =
     \<lparr>selected_page = Home, search_input = [],
      get_all_frameworks = Inl (Exc ''no data''),
      get_framework_categories = Inr [],
      fe_show_page = ([], None), ca_show_page = ([], None),
      ir_show_page = ([], None), fr_show_page = ([], None)\<rparr>"

section \<open>Boolean indexing is a filter\<close>

lemma df_filter_Nil [simp]: "df_filter [] m = []" "df_filter xs [] = []"
  by (simp_all add: df_filter_def)

lemma df_filter_Cons [simp]:
  "df_filter (x # xs) (b # bs) = (if b then x # df_filter xs bs else df_filter xs bs)"
  by (simp add: df_filter_def)

lemma df_filter_subseq: "subseq (df_filter xs bs) xs"
proof (induction xs arbitrary: bs)
  case Nil
  show ?case by simp
next
  case (Cons x xs)
  show ?case
  proof (cases bs)
    case Nil
    then show ?thesis by simp
  next
    case (Cons b bs')
    with Cons.IH [of bs'] show ?thesis by (cases b) auto
  qed
qed

lemma df_filter_map: "df_filter xs (map P xs) = filter P xs"
  by (induction xs) simp_all

lemma mask_or_map: "mask_or (map f xs) (map g xs) = map (\<lambda>x. f x \<or> g x) xs"
  by (induction xs) (simp_all add: mask_or_def)

section \<open>Search\<close>

lemma search_Returns:
  assumes "re_compile q = Returns regex"
  shows "search D q = Returns (filter (\<lambda>r. re_search regex (name r) \<or> re_search regex (core_function r)
            \<or> re_search regex (typical_uses r)) D)"
proof -
  have "mask_or (mask_or (map (re_search regex) (map name D)) (map (re_search regex) (map core_function D)))
          (map (re_search regex) (map typical_uses D))
        = map (\<lambda>r. (re_search regex (name r) \<or> re_search regex (core_function r))
            \<or> re_search regex (typical_uses r)) D"
    by (simp add: map_map comp_def mask_or_map)
  then show ?thesis
    using assms by (simp add: search_def str_contains_def df_filter_map disj_assoc)
qed

lemma search_Raises: "re_compile q = Raises e \<Longrightarrow> search D q = Raises e"
  by (simp add: search_def str_contains_def)

lemma search_Unmodelled: "re_compile q = Unmodelled \<Longrightarrow> search D q = Unmodelled"
  by (simp add: search_def str_contains_def)

lemma search_cases:
  "search D q = Returns rs \<Longrightarrow>
     \<exists>regex. re_compile q = Returns regex \<and>
       rs = filter (\<lambda>r. re_search regex (name r) \<or> re_search regex (core_function r)
            \<or> re_search regex (typical_uses r)) D"
  by (cases "re_compile q") (auto simp: search_Returns search_Raises search_Unmodelled)

text \<open>
  On a query of plain characters the pattern is the sequence of its characters, and the
  search is the containment test of the specification.
\<close>

lemma parse_plain: "list_all plain_char q \<Longrightarrow> parse pos q = Returns (map Lit q)"
proof (induction q arbitrary: pos)
  case Nil
  show ?case by simp
next
  case (Cons c q)
  then have "parse (pos + 1) q = Returns (map Lit q)" by simp
  moreover from Cons.prems have "c \<noteq> CHR ''[''" "c \<noteq> CHR ''.''" "c \<notin> set operators"
    by (simp_all add: plain_char_def)
  ultimately show ?case by simp
qed

lemma re_compile_plain: "list_all plain_char q \<Longrightarrow> re_compile q = Returns (map Lit q)"
proof -
  assume q: "list_all plain_char q"
  then have "\<not> list_ex (\<lambda>c. c = backslash \<or> c = newline \<or> (128::nat) \<le> of_char c) q"
    by (induction q) (simp_all add: plain_char_def)
  with q show ?thesis by (simp add: re_compile_def parse_plain)
qed

lemma match_here_literals: "match_here (map Lit q) s = prefix (map lower q) (map lower s)"
proof (induction q arbitrary: s)
  case Nil
  show ?case by simp
next
  case (Cons c q)
  show ?case
  proof (cases s)
    case Nil
    then show ?thesis by simp
  next
    case (Cons d s')
    with Cons.IH [of s'] show ?thesis by simp
  qed
qed

lemma re_search_literals: "re_search (map Lit q) s = ci_contains q s"
proof (induction s)
  case Nil
  show ?case by (simp add: ci_contains_def match_here_literals)
next
  case (Cons d s)
  then show ?case by (auto simp: ci_contains_def match_here_literals)
qed

lemma search_plain_query:
  assumes "list_all plain_char q"
  shows "search D q = Returns (filter (spec_match q) D)"
proof -
  have "spec_match q = (\<lambda>r. ci_contains q (name r) \<or> ci_contains q (core_function r) \<or> ci_contains q (typical_uses r))"
    by (rule ext) (simp add: spec_match_def)
  then show ?thesis
    by (simp add: search_Returns [OF re_compile_plain [OF assms]] re_search_literals)
qed

lemma re_compile_open_bracket:
  "re_compile ''['' = Raises (Exc ''unterminated character set at position 0'')"
  by code_simp

lemma re_compile_dot: "re_compile ''.'' = Returns [AnyChar]"
  by code_simp

text \<open>
  C1. The claim: for every query, also one with an unbalanced bracket, the search returns
  a result by literal containment and never raises. The code: on the query \<open>[\<close> the
  pattern compiler raises, whatever the data set, and the search raises with it.
\<close>

theorem search_unbalanced_bracket_raises:
  "search D ''['' = Raises (Exc ''unterminated character set at position 0'')"
  by (rule search_Raises) (rule re_compile_open_bracket)

text \<open>
  C2. The claim: a record is in the result exactly when the query occurs, without regard
  to case, in its name, core function or typical uses. The code: on the query \<open>.\<close>
  the search returns both rows of the scenario, and none of their three fields holds a dot.
\<close>

theorem search_dot_matches_without_containment:
  "search spec_scenario ''.'' = Returns spec_scenario \<and> filter (spec_match ''.'') spec_scenario = []"
proof
  show "search spec_scenario ''.'' = Returns spec_scenario"
    by (simp add: search_Returns [OF re_compile_dot] spec_scenario_def newline_def)
  show "filter (spec_match ''.'') spec_scenario = []"
    by code_simp
qed

text \<open>
  C5. Lines 99 to 103 index the frame with the disjunction of three boolean masks.
  Whatever the three masks are, and so for every query and every way the pattern search
  answers it, the rows kept are a subsequence of the data set: each is a record of the
  data set, and the order of the data set is kept. In particular this holds of every
  result of the search.
\<close>

theorem search_subsequence:
  "subseq (df_filter D (mask_or (mask_or m1 m2) m3)) D
   \<and> set (df_filter D (mask_or (mask_or m1 m2) m3)) \<subseteq> set D
   \<and> (search D q = Returns rs \<longrightarrow> subseq rs D \<and> set rs \<subseteq> set D)"
proof -
  have a: "subseq (df_filter D m) D" for m
    by (rule df_filter_subseq)
  have b: "set (df_filter D m) \<subseteq> set D" for m
    by (auto simp: df_filter_def dest: set_zip_leftD)
  have "subseq rs D \<and> set rs \<subseteq> set D" if "search D q = Returns rs"
  proof -
    from that obtain m1' m2' m3' where "rs = df_filter D (mask_or (mask_or m1' m2') m3')"
      by (auto simp: search_def str_contains_def split: outcome.splits
               elim!: bind_outcome.elims)
    with a b show ?thesis by simp
  qed
  with a b show ?thesis by blast
qed

theorem search_subsequence_witness:
  "search spec_scenario ''strength'' = Returns [hd spec_scenario]
   \<and> subseq [hd spec_scenario] spec_scenario \<and> set [hd spec_scenario] \<subseteq> set spec_scenario"
proof -
  have r: "search spec_scenario ''strength'' = Returns [hd spec_scenario]"
    by code_simp
  from search_subsequence [of spec_scenario _ _ _ "''strength''" "[hd spec_scenario]"] r
  show ?thesis by blast
qed

text \<open>
  C7. The featured selection is exactly the records of the data set whose name is in the
  list, in the order of the data set: it does not change when the list is reversed, and
  names that no record bears can be added to the list without effect (and without error:
  the selection is a total function).
\<close>

theorem select_featured_dataset_order:
  "select_featured D L = filter (\<lambda>r. name r \<in> set L) D
   \<and> select_featured D (rev L) = select_featured D L
   \<and> select_featured D (L @ filter (\<lambda>n. n \<notin> set (map name D)) M) = select_featured D L"
proof -
  have eq: "select_featured D L' = filter (\<lambda>r. name r \<in> set L') D" for L'
    by (simp add: select_featured_def isin_def map_map comp_def df_filter_map)
  have "filter (\<lambda>r. name r \<in> set (L @ filter (\<lambda>n. n \<notin> set (map name D)) M)) D
        = filter (\<lambda>r. name r \<in> set L) D"
    by (rule filter_cong) auto
  then show ?thesis by (simp add: eq)
qed



section \<open>Category counts\<close>

lemma count_in_order_snoc: "count_in_order (xs @ [x]) = bump x (count_in_order xs)"
  by (simp add: count_in_order_def)

lemma keys_bump:
  "map fst (bump k table) = (if k \<in> fst ` set table then map fst table else map fst table @ [k])"
proof (induction table)
  case Nil
  show ?case by simp
next
  case (Cons p table)
  obtain k' n where p: "p = (k', n)" by (cases p)
  show ?case
  proof (cases "k = k'")
    case True
    with p show ?thesis by simp
  next
    case False
    with p Cons.IH show ?thesis by simp
  qed
qed


lemma keys_count_in_order: "fst ` set (count_in_order xs) = set xs"
proof (induction xs rule: rev_induct)
  case Nil
  show ?case by (simp add: count_in_order_def)
next
  case (snoc x xs)
  have "set (map fst (bump x (count_in_order xs))) = insert x (fst ` set (count_in_order xs))"
    by (auto simp: keys_bump)
  with snoc show ?case by (simp add: count_in_order_snoc)
qed








section \<open>Routing and failures\<close>

lemma main_loaded:
  assumes "get_all_frameworks e = Inr df" and "get_framework_categories e = Inr cats"
  shows "main e = (main_header @ fst (except_Exception (selected_page e) (route e df cats)),
                   snd (except_Exception (selected_page e) (route e df cats)))"
  using assms by (simp add: main_def split: prod.splits)

lemma main_caught:
  assumes "get_all_frameworks e = Inr df" and "get_framework_categories e = Inr cats"
    and "route e df cats = (out, Raises (Exc msg))"
  shows "main e = (main_header @ out @
           [StError (error_message (selected_page e) msg),
            StWrite ''Please try refreshing the page or contact support if the issue persists.''],
          Returns ())"
  using assms by (simp add: main_loaded)

lemma error_message_names_page: "sublist (label p) (error_message p msg)"
proof -
  have "error_message p msg = (''Error loading page '' @ [apostrophe]) @ label p @ ([apostrophe] @ '': '' @ msg)"
    by (simp add: error_message_def)
  then show ?thesis
    unfolding sublist_def by blast
qed

lemma error_message_holds_text: "sublist msg (error_message p msg)"
proof -
  have "error_message p msg = (''Error loading page '' @ [apostrophe] @ label p @ [apostrophe] @ '': '') @ msg @ []"
    by (simp add: error_message_def)
  then show ?thesis
    unfolding sublist_def by blast
qed

text \<open>
  C3. When the data is loaded and the handler of the selected page, one of the four
  pages other than Home, raises an \<open>Exception\<close> with text \<open>msg\<close> after writing
  \<open>out\<close>, \<open>main\<close> returns normally, and what it wrote ends with an error box for that
  page. The message of the error box holds the label of the page and the text of the
  exception.
\<close>

theorem router_catches_page_error:
  assumes "get_all_frameworks e = Inr df" and "get_framework_categories e = Inr cats"
  shows "(selected_page e = FrameworkExplorer \<longrightarrow> fe_show_page e = (out, Some (Exc msg)) \<longrightarrow>
          main e = (main_header @ StWrite ''Loading Framework Explorer...'' # out @
              [StError (error_message FrameworkExplorer msg),
               StWrite ''Please try refreshing the page or contact support if the issue persists.''], Returns ()))
     \<and> (selected_page e = ComparativeAnalysis \<longrightarrow> ca_show_page e = (out, Some (Exc msg)) \<longrightarrow>
          main e = (main_header @ StWrite ''Loading Comparative Analysis...'' # out @
              [StError (error_message ComparativeAnalysis msg),
               StWrite ''Please try refreshing the page or contact support if the issue persists.''], Returns ()))
     \<and> (selected_page e = IndustryRecommendations \<longrightarrow> ir_show_page e = (out, Some (Exc msg)) \<longrightarrow>
          main e = (main_header @ StWrite ''Loading Industry Recommendations...'' # out @
              [StError (error_message IndustryRecommendations msg),
               StWrite ''Please try refreshing the page or contact support if the issue persists.''], Returns ()))
     \<and> (selected_page e = FrameworkRelationships \<longrightarrow> fr_show_page e = (out, Some (Exc msg)) \<longrightarrow>
          main e = (main_header @ StWrite ''Loading Framework Relationships...'' # out @
              [StError (error_message FrameworkRelationships msg),
               StWrite ''Please try refreshing the page or contact support if the issue persists.''], Returns ()))
     \<and> sublist (label p) (error_message p msg) \<and> sublist msg (error_message p msg)"
proof -
  have p0: "main e = (main_header @ StWrite ''Loading Framework Explorer...'' # out @
              [StError (error_message FrameworkExplorer msg),
               StWrite ''Please try refreshing the page or contact support if the issue persists.''], Returns ())"
    if "selected_page e = FrameworkExplorer" and "fe_show_page e = (out, Some (Exc msg))"
  proof -
    from that have "route e df cats = (StWrite ''Loading Framework Explorer...'' # out, Raises (Exc msg))"
      by (simp add: route_def)
    from main_caught [OF assms this] that(1) show ?thesis by simp
  qed
  have p1: "main e = (main_header @ StWrite ''Loading Comparative Analysis...'' # out @
              [StError (error_message ComparativeAnalysis msg),
               StWrite ''Please try refreshing the page or contact support if the issue persists.''], Returns ())"
    if "selected_page e = ComparativeAnalysis" and "ca_show_page e = (out, Some (Exc msg))"
  proof -
    from that have "route e df cats = (StWrite ''Loading Comparative Analysis...'' # out, Raises (Exc msg))"
      by (simp add: route_def)
    from main_caught [OF assms this] that(1) show ?thesis by simp
  qed
  have p2: "main e = (main_header @ StWrite ''Loading Industry Recommendations...'' # out @
              [StError (error_message IndustryRecommendations msg),
               StWrite ''Please try refreshing the page or contact support if the issue persists.''], Returns ())"
    if "selected_page e = IndustryRecommendations" and "ir_show_page e = (out, Some (Exc msg))"
  proof -
    from that have "route e df cats = (StWrite ''Loading Industry Recommendations...'' # out, Raises (Exc msg))"
      by (simp add: route_def)
    from main_caught [OF assms this] that(1) show ?thesis by simp
  qed
  have p3: "main e = (main_header @ StWrite ''Loading Framework Relationships...'' # out @
              [StError (error_message FrameworkRelationships msg),
               StWrite ''Please try refreshing the page or contact support if the issue persists.''], Returns ())"
    if "selected_page e = FrameworkRelationships" and "fr_show_page e = (out, Some (Exc msg))"
  proof -
    from that have "route e df cats = (StWrite ''Loading Framework Relationships...'' # out, Raises (Exc msg))"
      by (simp add: route_def)
    from main_caught [OF assms this] that(1) show ?thesis by simp
  qed
  from p0 p1 p2 p3 error_message_names_page [of p msg] error_message_holds_text [of msg p]
  show ?thesis by blast
qed

theorem router_catches_page_error_witness:
  "main failing_pages =
     (main_header @ [StWrite ''Loading Framework Explorer...'', StWrite ''Explorer'',
        StError (error_message FrameworkExplorer ''explorer failed''),
        StWrite ''Please try refreshing the page or contact support if the issue persists.''], Returns ())
   \<and> main (failing_pages\<lparr>selected_page := ComparativeAnalysis\<rparr>) =
     (main_header @ [StWrite ''Loading Comparative Analysis...'',
        StError (error_message ComparativeAnalysis ''comparison failed''),
        StWrite ''Please try refreshing the page or contact support if the issue persists.''], Returns ())
   \<and> main (failing_pages\<lparr>selected_page := IndustryRecommendations\<rparr>) =
     (main_header @ [StWrite ''Loading Industry Recommendations...'', StWrite ''Industries'',
        StError (error_message IndustryRecommendations ''recommendations failed''),
        StWrite ''Please try refreshing the page or contact support if the issue persists.''], Returns ())
   \<and> main (failing_pages\<lparr>selected_page := FrameworkRelationships\<rparr>) =
     (main_header @ [StWrite ''Loading Framework Relationships...'',
        StError (error_message FrameworkRelationships ''relationships failed''),
        StWrite ''Please try refreshing the page or contact support if the issue persists.''], Returns ())
   \<and> sublist ''Comparative Analysis'' (error_message ComparativeAnalysis ''comparison failed'')
   \<and> sublist ''comparison failed'' (error_message ComparativeAnalysis ''comparison failed'')"
proof -
  let ?ca = "failing_pages\<lparr>selected_page := ComparativeAnalysis\<rparr>"
  let ?ir = "failing_pages\<lparr>selected_page := IndustryRecommendations\<rparr>"
  let ?fr = "failing_pages\<lparr>selected_page := FrameworkRelationships\<rparr>"
  have fe: "get_all_frameworks failing_pages = Inr three_frameworks"
    "get_framework_categories failing_pages = Inr two_categories"
    by (simp_all add: failing_pages_def)
  have ca: "get_all_frameworks ?ca = Inr three_frameworks"
    "get_framework_categories ?ca = Inr two_categories"
    by (simp_all add: failing_pages_def)
  have ir: "get_all_frameworks ?ir = Inr three_frameworks"
    "get_framework_categories ?ir = Inr two_categories"
    by (simp_all add: failing_pages_def)
  have fr: "get_all_frameworks ?fr = Inr three_frameworks"
    "get_framework_categories ?fr = Inr two_categories"
    by (simp_all add: failing_pages_def)
  from router_catches_page_error [OF fe, of "[StWrite ''Explorer'']" "''explorer failed''"]
  have 1: "main failing_pages =
     (main_header @ [StWrite ''Loading Framework Explorer...'', StWrite ''Explorer'',
        StError (error_message FrameworkExplorer ''explorer failed''),
        StWrite ''Please try refreshing the page or contact support if the issue persists.''], Returns ())"
    by (simp add: failing_pages_def)
  from router_catches_page_error [OF ca, of "[]" "''comparison failed''" ComparativeAnalysis]
  have 2: "main ?ca =
     (main_header @ [StWrite ''Loading Comparative Analysis...'',
        StError (error_message ComparativeAnalysis ''comparison failed''),
        StWrite ''Please try refreshing the page or contact support if the issue persists.''], Returns ())"
    and 5: "sublist ''Comparative Analysis'' (error_message ComparativeAnalysis ''comparison failed'')"
    and 6: "sublist ''comparison failed'' (error_message ComparativeAnalysis ''comparison failed'')"
    by (simp_all add: failing_pages_def)
  from router_catches_page_error [OF ir, of "[StWrite ''Industries'']" "''recommendations failed''"]
  have 3: "main ?ir =
     (main_header @ [StWrite ''Loading Industry Recommendations...'', StWrite ''Industries'',
        StError (error_message IndustryRecommendations ''recommendations failed''),
        StWrite ''Please try refreshing the page or contact support if the issue persists.''], Returns ())"
    by (simp add: failing_pages_def)
  from router_catches_page_error [OF fr, of "[]" "''relationships failed''"]
  have 4: "main ?fr =
     (main_header @ [StWrite ''Loading Framework Relationships...'',
        StError (error_message FrameworkRelationships ''relationships failed''),
        StWrite ''Please try refreshing the page or contact support if the issue persists.''], Returns ())"
    by (simp add: failing_pages_def)
  from 1 2 3 4 5 6 show ?thesis by simp
qed

text \<open>
  C4. When \<open>get_all_frameworks\<close> raises, or it returns and
  \<open>get_framework_categories\<close> raises, the exception leaves \<open>main\<close>, whichever
  page is selected and whatever the exception is; only the header was written, and no
  error box.
\<close>

theorem load_failure_propagates:
  assumes "get_all_frameworks e = Inl exc
           \<or> (get_all_frameworks e = Inr df \<and> get_framework_categories e = Inl exc)"
  shows "main (e\<lparr>selected_page := p\<rparr>) = (main_header, Raises exc)"
  using assms by (auto simp: main_def)

theorem load_failure_propagates_witness:
  "main (failing_loader\<lparr>selected_page := FrameworkRelationships\<rparr>) = (main_header, Raises (Exc ''no data''))
   \<and> main (failing_loader\<lparr>selected_page := Home\<rparr>) = (main_header, Raises (Exc ''no data''))"
proof -
  have a: "get_all_frameworks failing_loader = Inl (Exc ''no data'')
           \<or> (get_all_frameworks failing_loader = Inr [] \<and> get_framework_categories failing_loader = Inl (Exc ''no data''))"
    by (simp add: failing_loader_def)
  from load_failure_propagates [OF a, of FrameworkRelationships] load_failure_propagates [OF a, of Home]
  show ?thesis by simp
qed

lemma re_compile_empty: "re_compile [] = Returns []"
  by (simp add: re_compile_def)

lemma re_search_empty: "re_search [] s = True"
  by (cases s) simp_all

lemma home_overview_three:
  "home_overview three_frameworks two_categories =
     ([StMetric ''Total Frameworks'' (Count 3),
       StMetric ''Categories'' (Count 2),
       StMetric ''Strategic Frameworks'' (Count 2),
       StMetric ''Industries Covered'' (Text ''10+''),
       StMarkdown ''---'',
       StSubheader ''Framework Categories Overview'',
       StPlotlyChart ''Number of Frameworks by Category''
         [''Strategic Planning Frameworks'', ''Innovation''] [2, 1]], Returns ())"
  by code_simp


text \<open>
  C8. On the empty query the search block writes nothing, although the search itself,
  called on the empty query, would return every record; and when the overview has been
  rendered the Home page goes on to the featured frameworks, with no table and no notice
  in between.
\<close>

theorem empty_query_skips_search:
  "home_search df [] = ([], Returns ())
   \<and> search df [] = Returns df
   \<and> (home_overview df cats = (overview, Returns ()) \<longrightarrow>
        show_home_page df cats [] =
          (overview @
           [StSubheader ''Quick Framework Search'', StTextInput ''Search for a framework:''] @
           home_featured df @ home_guide, Returns ()))"
proof -
  have a: "home_search df [] = ([], Returns ())"
    by (simp add: home_search_def)
  have b: "search df [] = Returns df"
    by (simp add: search_Returns [OF re_compile_empty] re_search_empty)
  have c: "show_home_page df cats [] =
          (overview @
           [StSubheader ''Quick Framework Search'', StTextInput ''Search for a framework:''] @
           home_featured df @ home_guide, Returns ())"
    if "home_overview df cats = (overview, Returns ())"
    using that a by (simp add: show_home_page_def)
  from a b c show ?thesis by blast
qed

theorem empty_query_skips_search_witness:
  "show_home_page three_frameworks two_categories [] =
     ([StMetric ''Total Frameworks'' (Count 3),
       StMetric ''Categories'' (Count 2),
       StMetric ''Strategic Frameworks'' (Count 2),
       StMetric ''Industries Covered'' (Text ''10+''),
       StMarkdown ''---'',
       StSubheader ''Framework Categories Overview'',
       StPlotlyChart ''Number of Frameworks by Category''
         [''Strategic Planning Frameworks'', ''Innovation''] [2, 1]] @
      [StSubheader ''Quick Framework Search'', StTextInput ''Search for a framework:''] @
      home_featured three_frameworks @ home_guide, Returns ())"
  using empty_query_skips_search [of three_frameworks two_categories] home_overview_three
  by simp



end
